theory Spec2Isabelle
  imports Main "HOL-Library.Sublist"
begin

section \<open>The Go library functions the migrations package calls\<close>

text \<open>
  A Go \<^verbatim>\<open>string\<close> is a sequence of bytes, here a \<^typ>\<open>string\<close> (a list of 8-bit
  characters). The functions of packages \<^verbatim>\<open>strings\<close> and \<^verbatim>\<open>fmt\<close> that the package
  calls are modelled on bytes, as Go defines them.
\<close>

subsection \<open>strings.Join, strings.Contains, strings.HasPrefix, strings.HasSuffix\<close>

fun Join :: "string list \<Rightarrow> string \<Rightarrow> string" where
  "Join [] sep = []"
| "Join [x] sep = x"
| "Join (x # y # ys) sep = x @ sep @ Join (y # ys) sep"

fun Contains :: "string \<Rightarrow> string \<Rightarrow> bool" where
  "Contains [] substr = (substr = [])"
| "Contains (c # cs) substr = (prefix substr (c # cs) \<or> Contains cs substr)"

definition HasPrefix :: "string \<Rightarrow> string \<Rightarrow> bool" where
  "HasPrefix s p = prefix p s"

definition HasSuffix :: "string \<Rightarrow> string \<Rightarrow> bool" where
  "HasSuffix s p = suffix p s"

subsection \<open>strings.ReplaceAll\<close>

text \<open>
  \<^verbatim>\<open>strings.ReplaceAll(s, old, new)\<close> replaces the non-overlapping occurrences of \<^verbatim>\<open>old\<close>,
  found from the left. The package calls it with the one-byte \<^verbatim>\<open>old\<close> of a backtick only;
  the model covers every non-empty \<^verbatim>\<open>old\<close>. (For an empty \<^verbatim>\<open>old\<close> Go inserts \<^verbatim>\<open>new\<close>
  around every UTF-8 sequence; that case is outside the model, which returns \<^verbatim>\<open>s\<close>.)
\<close>

fun ReplaceAll :: "string \<Rightarrow> string \<Rightarrow> string \<Rightarrow> string" where
  "ReplaceAll [] old new = []"
| "ReplaceAll (c # cs) old new =
     (if old \<noteq> [] \<and> prefix old (c # cs)
      then new @ ReplaceAll (drop (length old - 1) cs) old new
      else c # ReplaceAll cs old new)"

subsection \<open>strings.Fields\<close>

text \<open>
  \<^verbatim>\<open>strings.Fields\<close> splits around runs of white space as \<^verbatim>\<open>unicode.IsSpace\<close> defines it:
  the six ASCII characters tab, newline, vertical tab, form feed, carriage return and
  space, and the runes U+0085, U+00A0, U+1680, U+2000 to U+200A, U+2028, U+2029, U+202F,
  U+205F and U+3000. \<open>unicodeSpaces\<close> lists their UTF-8 encodings. Each multi-byte encoding
  starts with a lead byte, which no other valid sequence holds inside, so Go's rune-wise
  scan finds a white-space rune exactly where one of these byte sequences starts.
\<close>

definition unicodeSpaces :: "string list" where
  "unicodeSpaces =
     [[CHR 0x09], [CHR 0x0A], [CHR 0x0B], [CHR 0x0C], [CHR 0x0D], [CHR 0x20],
      [CHR 0xC2, CHR 0x85], [CHR 0xC2, CHR 0xA0],
      [CHR 0xE1, CHR 0x9A, CHR 0x80],
      [CHR 0xE2, CHR 0x80, CHR 0x80], [CHR 0xE2, CHR 0x80, CHR 0x81],
      [CHR 0xE2, CHR 0x80, CHR 0x82], [CHR 0xE2, CHR 0x80, CHR 0x83],
      [CHR 0xE2, CHR 0x80, CHR 0x84], [CHR 0xE2, CHR 0x80, CHR 0x85],
      [CHR 0xE2, CHR 0x80, CHR 0x86], [CHR 0xE2, CHR 0x80, CHR 0x87],
      [CHR 0xE2, CHR 0x80, CHR 0x88], [CHR 0xE2, CHR 0x80, CHR 0x89],
      [CHR 0xE2, CHR 0x80, CHR 0x8A],
      [CHR 0xE2, CHR 0x80, CHR 0xA8], [CHR 0xE2, CHR 0x80, CHR 0xA9],
      [CHR 0xE2, CHR 0x80, CHR 0xAF],
      [CHR 0xE2, CHR 0x81, CHR 0x9F],
      [CHR 0xE3, CHR 0x80, CHR 0x80]]"

text \<open>The number of bytes of the white-space rune that \<open>s\<close> starts with; 0 when it starts
  with none.\<close>

definition spaceWidth :: "string \<Rightarrow> nat" where
  "spaceWidth s = (case find (\<lambda>w. prefix w s) unicodeSpaces of None \<Rightarrow> 0 | Some w \<Rightarrow> length w)"

text \<open>The scan: \<open>cur\<close> is the field read so far, closed by the next white-space rune or
  by the end of the string; empty fields are not kept.\<close>

fun Fields_scan :: "string \<Rightarrow> string \<Rightarrow> string list" where
  "Fields_scan cur [] = (if cur = [] then [] else [cur])"
| "Fields_scan cur (c # cs) =
     (if spaceWidth (c # cs) = 0 then Fields_scan (cur @ [c]) cs
      else (if cur = [] then [] else [cur]) @ Fields_scan [] (drop (spaceWidth (c # cs) - 1) cs))"

definition Fields :: "string \<Rightarrow> string list" where
  "Fields s = Fields_scan [] s"

subsection \<open>fmt.Sprintf\<close>

text \<open>
  The verb \<^verbatim>\<open>%s\<close> of a string is the string, so a format with \<^verbatim>\<open>%s\<close> verbs is written
  as the concatenation it produces. \<^verbatim>\<open>%d\<close> of an \<^verbatim>\<open>int\<close> is its decimal numeral.
\<close>

fun fmt_nat :: "nat \<Rightarrow> string" where
  "fmt_nat n =
     (if n < 10 then [''0123456789'' ! n]
      else fmt_nat (n div 10) @ [''0123456789'' ! (n mod 10)])"

declare fmt_nat.simps [simp del]

definition fmt_d :: "int \<Rightarrow> string" where
  "fmt_d i = (if i < 0 then ''-'' @ fmt_nat (nat (- i)) else fmt_nat (nat i))"

text \<open>
  A value of type \<^verbatim>\<open>interface{}\<close> (a column's default) carries its dynamic type. The
  dynamic types that \<open>formatDefaultValue\<close> tells apart are constructors of their own; a
  \<^verbatim>\<open>float64\<close> and a value of any other type are represented by the text that the verb
  \<^verbatim>\<open>%v\<close> prints for them.
\<close>

datatype go_value =
    GoString string
  | GoInt int
  | GoInt64 int
  | GoFloat64 string
  | GoBool bool
  | GoOther string

fun fmt_v :: "go_value \<Rightarrow> string" where
  "fmt_v (GoString s) = s"
| "fmt_v (GoInt i) = fmt_d i"
| "fmt_v (GoInt64 i) = fmt_d i"
| "fmt_v (GoFloat64 text) = text"
| "fmt_v (GoBool b) = (if b then ''true'' else ''false'')"
| "fmt_v (GoOther text) = text"

section \<open>The data model (migrations.go)\<close>

text \<open>
  The struct \<^verbatim>\<open>Column\<close>. \<open>Length\<close> is a pointer to an \<^verbatim>\<open>int\<close> and \<open>Default\<close> an
  \<^verbatim>\<open>interface{}\<close>: \<open>None\<close> is Go's \<^verbatim>\<open>nil\<close>. The zero value of the struct is what a struct
  literal leaves in the fields it does not name.
\<close>

record Column =
  Name :: string
  Type :: string
  Length :: "int option"
  Nullable :: bool
  Default :: "go_value option"
  Primary :: bool
  Unique :: bool
  Comment :: string
  After :: string

text \<open>
  The struct \<^verbatim>\<open>blueprint\<close>. The field \<open>db\<close> keeps the database handle the blueprint was
  made with; no method of the package reads it.
\<close>

record 'db blueprint =
  tableName :: string
  columns :: "Column list"
  indexes :: "string list"
  foreigns :: "string list"
  db :: 'db

definition newBlueprint :: "string \<Rightarrow> 'db \<Rightarrow> 'db blueprint" where
  "newBlueprint name handle =
     \<lparr>tableName = name, columns = [], indexes = [], foreigns = [], db = handle\<rparr>"

subsection \<open>Columns and their modifiers\<close>

text \<open>
  A \<^verbatim>\<open>columnBuilder\<close> points at the column it was made for, the last slot of the
  blueprint's column slice at that moment; the model keeps the slot's index. The methods
  of the builder write through that pointer, so each takes the blueprint and returns it
  updated. A write through the pointer reaches the blueprint as long as the slice still
  has the backing array the pointer was taken from, which is so in the chained form
  \<^verbatim>\<open>bp.String("a", 10).Nullable()\<close>, where no column is appended between the two calls.
\<close>

record columnBuilder =
  column :: nat

definition blueprint_AddColumn ::
  "'db blueprint \<Rightarrow> string \<Rightarrow> string \<Rightarrow> 'db blueprint \<times> columnBuilder" where
  "blueprint_AddColumn b name columnType =
     (let col = \<lparr>Name = name, Type = columnType, Length = None, Nullable = False,
                 Default = None, Primary = False, Unique = False, Comment = [], After = []\<rparr>;
          b' = b\<lparr>columns := columns b @ [col]\<rparr>
      in (b', \<lparr>column = length (columns b') - 1\<rparr>))"

definition blueprint_ID :: "'db blueprint \<Rightarrow> 'db blueprint \<times> columnBuilder" where
  "blueprint_ID b = blueprint_AddColumn b ''id'' ''BIGINT UNSIGNED AUTO_INCREMENT PRIMARY KEY''"

definition blueprint_String ::
  "'db blueprint \<Rightarrow> string \<Rightarrow> int \<Rightarrow> 'db blueprint \<times> columnBuilder" where
  "blueprint_String b name len = blueprint_AddColumn b name (''VARCHAR('' @ fmt_d len @ '')'')"

definition blueprint_Text :: "'db blueprint \<Rightarrow> string \<Rightarrow> 'db blueprint \<times> columnBuilder" where
  "blueprint_Text b name = blueprint_AddColumn b name ''TEXT''"

definition blueprint_Integer :: "'db blueprint \<Rightarrow> string \<Rightarrow> 'db blueprint \<times> columnBuilder" where
  "blueprint_Integer b name = blueprint_AddColumn b name ''INT''"

definition blueprint_BigInteger :: "'db blueprint \<Rightarrow> string \<Rightarrow> 'db blueprint \<times> columnBuilder" where
  "blueprint_BigInteger b name = blueprint_AddColumn b name ''BIGINT''"

definition blueprint_Float :: "'db blueprint \<Rightarrow> string \<Rightarrow> 'db blueprint \<times> columnBuilder" where
  "blueprint_Float b name = blueprint_AddColumn b name ''FLOAT''"

definition blueprint_Double :: "'db blueprint \<Rightarrow> string \<Rightarrow> 'db blueprint \<times> columnBuilder" where
  "blueprint_Double b name = blueprint_AddColumn b name ''DOUBLE''"

definition blueprint_Decimal ::
  "'db blueprint \<Rightarrow> string \<Rightarrow> int \<Rightarrow> int \<Rightarrow> 'db blueprint \<times> columnBuilder" where
  "blueprint_Decimal b name precision scale =
     blueprint_AddColumn b name (''DECIMAL('' @ fmt_d precision @ '','' @ fmt_d scale @ '')'')"

definition blueprint_Boolean :: "'db blueprint \<Rightarrow> string \<Rightarrow> 'db blueprint \<times> columnBuilder" where
  "blueprint_Boolean b name = blueprint_AddColumn b name ''BOOLEAN''"

definition blueprint_Date :: "'db blueprint \<Rightarrow> string \<Rightarrow> 'db blueprint \<times> columnBuilder" where
  "blueprint_Date b name = blueprint_AddColumn b name ''DATE''"

definition blueprint_DateTime :: "'db blueprint \<Rightarrow> string \<Rightarrow> 'db blueprint \<times> columnBuilder" where
  "blueprint_DateTime b name = blueprint_AddColumn b name ''DATETIME''"

definition blueprint_Timestamp :: "'db blueprint \<Rightarrow> string \<Rightarrow> 'db blueprint \<times> columnBuilder" where
  "blueprint_Timestamp b name = blueprint_AddColumn b name ''TIMESTAMP''"

definition blueprint_JSON :: "'db blueprint \<Rightarrow> string \<Rightarrow> 'db blueprint \<times> columnBuilder" where
  "blueprint_JSON b name = blueprint_AddColumn b name ''JSON''"

definition blueprint_Binary :: "'db blueprint \<Rightarrow> string \<Rightarrow> 'db blueprint \<times> columnBuilder" where
  "blueprint_Binary b name = blueprint_AddColumn b name ''BINARY''"

definition blueprint_UUID :: "'db blueprint \<Rightarrow> string \<Rightarrow> 'db blueprint \<times> columnBuilder" where
  "blueprint_UUID b name = blueprint_AddColumn b name ''CHAR(36)''"

definition blueprint_Timestamps :: "'db blueprint \<Rightarrow> 'db blueprint" where
  "blueprint_Timestamps b =
     (let b1 = fst (blueprint_AddColumn b ''created_at'' ''TIMESTAMP DEFAULT CURRENT_TIMESTAMP'')
      in fst (blueprint_AddColumn b1 ''updated_at''
                ''TIMESTAMP DEFAULT CURRENT_TIMESTAMP ON UPDATE CURRENT_TIMESTAMP''))"

text \<open>The write \<^verbatim>\<open>c.column.F = v\<close> of a modifier, on the slot the builder points at.\<close>

definition set_column :: "columnBuilder \<Rightarrow> (Column \<Rightarrow> Column) \<Rightarrow> 'db blueprint \<Rightarrow> 'db blueprint" where
  "set_column c f b =
     (if column c < length (columns b)
      then b\<lparr>columns := (columns b)[column c := f (columns b ! column c)]\<rparr>
      else b)"

definition columnBuilder_Nullable :: "columnBuilder \<Rightarrow> 'db blueprint \<Rightarrow> 'db blueprint" where
  "columnBuilder_Nullable c b = set_column c (\<lambda>col. col\<lparr>Nullable := True\<rparr>) b"

definition columnBuilder_NotNullable :: "columnBuilder \<Rightarrow> 'db blueprint \<Rightarrow> 'db blueprint" where
  "columnBuilder_NotNullable c b = set_column c (\<lambda>col. col\<lparr>Nullable := False\<rparr>) b"

definition columnBuilder_Default ::
  "columnBuilder \<Rightarrow> go_value option \<Rightarrow> 'db blueprint \<Rightarrow> 'db blueprint" where
  "columnBuilder_Default c v b = set_column c (\<lambda>col. col\<lparr>Default := v\<rparr>) b"

definition columnBuilder_Unique :: "columnBuilder \<Rightarrow> 'db blueprint \<Rightarrow> 'db blueprint" where
  "columnBuilder_Unique c b = set_column c (\<lambda>col. col\<lparr>Unique := True\<rparr>) b"

definition columnBuilder_Primary :: "columnBuilder \<Rightarrow> 'db blueprint \<Rightarrow> 'db blueprint" where
  "columnBuilder_Primary c b = set_column c (\<lambda>col. col\<lparr>Primary := True\<rparr>) b"

definition columnBuilder_Comment :: "columnBuilder \<Rightarrow> string \<Rightarrow> 'db blueprint \<Rightarrow> 'db blueprint" where
  "columnBuilder_Comment c text b = set_column c (\<lambda>col. col\<lparr>Comment := text\<rparr>) b"

definition columnBuilder_After :: "columnBuilder \<Rightarrow> string \<Rightarrow> 'db blueprint \<Rightarrow> 'db blueprint" where
  "columnBuilder_After c name b = set_column c (\<lambda>col. col\<lparr>After := name\<rparr>) b"

subsection \<open>Indexes\<close>

definition blueprint_Index :: "'db blueprint \<Rightarrow> string list \<Rightarrow> 'db blueprint" where
  "blueprint_Index b cols =
     (let indexName = Join cols ''_'' @ ''_index''
      in b\<lparr>indexes := indexes b @ [''INDEX '' @ indexName @ '' ('' @ Join cols '', '' @ '')'']\<rparr>)"

definition blueprint_UniqueIndex :: "'db blueprint \<Rightarrow> string list \<Rightarrow> 'db blueprint" where
  "blueprint_UniqueIndex b cols =
     (let indexName = Join cols ''_'' @ ''_unique''
      in b\<lparr>indexes := indexes b @ [''UNIQUE INDEX '' @ indexName @ '' ('' @ Join cols '', '' @ '')'']\<rparr>)"

definition blueprint_Primary :: "'db blueprint \<Rightarrow> string list \<Rightarrow> 'db blueprint" where
  "blueprint_Primary b cols =
     b\<lparr>indexes := indexes b @ [''PRIMARY KEY ('' @ Join cols '', '' @ '')'']\<rparr>"

definition blueprint_FullTextIndex :: "'db blueprint \<Rightarrow> string list \<Rightarrow> 'db blueprint" where
  "blueprint_FullTextIndex b cols =
     (let indexName = Join cols ''_'' @ ''_fulltext''
      in b\<lparr>indexes := indexes b @ [''FULLTEXT INDEX '' @ indexName @ '' ('' @ Join cols '', '' @ '')'']\<rparr>)"

text \<open>\<^verbatim>\<open>columnBuilder.Index\<close> reads the name through the column pointer and registers a
  one-column index.\<close>

definition columnBuilder_Index :: "columnBuilder \<Rightarrow> 'db blueprint \<Rightarrow> 'db blueprint" where
  "columnBuilder_Index c b = blueprint_Index b [Name (columns b ! column c)]"

subsection \<open>Foreign keys\<close>

text \<open>
  The struct \<^verbatim>\<open>foreignKeyBuilder\<close>, without its pointer to the blueprint: every method
  takes the builder and the blueprint and returns both as the call leaves them.
\<close>

record foreignKeyBuilder =
  localColumn :: string
  foreignTable :: string
  foreignColumn :: string
  onDelete :: string
  onUpdate :: string

definition blueprint_Foreign :: "'db blueprint \<Rightarrow> string \<Rightarrow> foreignKeyBuilder" where
  "blueprint_Foreign b col =
     \<lparr>localColumn = col, foreignTable = [], foreignColumn = [], onDelete = [], onUpdate = []\<rparr>"

definition foreignKeyBuilder_build :: "foreignKeyBuilder \<Rightarrow> 'db blueprint \<Rightarrow> 'db blueprint" where
  "foreignKeyBuilder_build f b =
     (if foreignTable f = [] \<or> foreignColumn f = [] then b
      else
        let parts0 = [''FOREIGN KEY ('' @ localColumn f @ '')''];
            parts1 = parts0 @ [''REFERENCES '' @ foreignTable f @ '' ('' @ foreignColumn f @ '')''];
            parts2 = (if onDelete f \<noteq> [] then parts1 @ [''ON DELETE '' @ onDelete f] else parts1);
            parts3 = (if onUpdate f \<noteq> [] then parts2 @ [''ON UPDATE '' @ onUpdate f] else parts2);
            foreignSQL = Join parts3 '' ''
        in b\<lparr>foreigns := foreigns b @ [foreignSQL]\<rparr>)"

definition foreignKeyBuilder_References ::
  "foreignKeyBuilder \<times> 'db blueprint \<Rightarrow> string \<Rightarrow> foreignKeyBuilder \<times> 'db blueprint" where
  "foreignKeyBuilder_References fb col =
     (let f = (fst fb)\<lparr>foreignColumn := col\<rparr> in (f, snd fb))"

definition foreignKeyBuilder_OnDelete ::
  "foreignKeyBuilder \<times> 'db blueprint \<Rightarrow> string \<Rightarrow> foreignKeyBuilder \<times> 'db blueprint" where
  "foreignKeyBuilder_OnDelete fb action =
     (let f = (fst fb)\<lparr>onDelete := action\<rparr> in (f, foreignKeyBuilder_build f (snd fb)))"

definition foreignKeyBuilder_OnUpdate ::
  "foreignKeyBuilder \<times> 'db blueprint \<Rightarrow> string \<Rightarrow> foreignKeyBuilder \<times> 'db blueprint" where
  "foreignKeyBuilder_OnUpdate fb action =
     (let f = (fst fb)\<lparr>onUpdate := action\<rparr> in (f, foreignKeyBuilder_build f (snd fb)))"

definition foreignKeyBuilder_On ::
  "foreignKeyBuilder \<times> 'db blueprint \<Rightarrow> string \<Rightarrow> foreignKeyBuilder \<times> 'db blueprint" where
  "foreignKeyBuilder_On fb table =
     (let f = (fst fb)\<lparr>foreignTable := table\<rparr> in (f, foreignKeyBuilder_build f (snd fb)))"

section \<open>The MySQL renderer (mysql.go)\<close>

text \<open>
  \<^verbatim>\<open>mysqlBlueprint\<close> and \<^verbatim>\<open>postgresqlBlueprint\<close> embed a pointer to a \<^verbatim>\<open>blueprint\<close> and add
  methods; both are the record \<open>blueprint\<close> here. A loop
  \<^verbatim>\<open>for _, x := range xs { parts = append(parts, e) }\<close> is the \<open>fold\<close> of its body over
  \<open>xs\<close>, from the value \<open>parts\<close> has before it.
\<close>

definition mysqlBlueprint_toCreateSQL :: "'db blueprint \<Rightarrow> string" where
  "mysqlBlueprint_toCreateSQL bp =
     (let parts0 = [];
          parts1 = fold (\<lambda>col parts.
                     let columnSQL0 = ''`'' @ Name col @ ''` '' @ Type col;
                         columnSQL1 = (if \<not> Nullable col then columnSQL0 @ '' NOT NULL''
                                       else columnSQL0);
                         columnSQL2 = (case Default col of
                                         Some v \<Rightarrow> columnSQL1 @ '' DEFAULT '' @ fmt_v v
                                       | None \<Rightarrow> columnSQL1);
                         columnSQL3 = (if Comment col \<noteq> []
                                       then columnSQL2 @ '' COMMENT '' @ [CHR 0x27] @ Comment col @ [CHR 0x27]
                                       else columnSQL2)
                     in parts @ [columnSQL3]) (columns bp) parts0;
          parts2 = fold (\<lambda>index parts. parts @ [index]) (indexes bp) parts1;
          parts3 = fold (\<lambda>foreign parts. parts @ [foreign]) (foreigns bp) parts2
      in ''CREATE TABLE `'' @ tableName bp @ ''` (\<newline>  '' @ Join parts3 '',\<newline>  '' @
         ''\<newline>) ENGINE=InnoDB DEFAULT CHARSET=utf8mb4 COLLATE=utf8mb4_unicode_ci'')"

definition mysqlBlueprint_toAlterSQL :: "'db blueprint \<Rightarrow> string list" where
  "mysqlBlueprint_toAlterSQL bp =
     (let sqls0 = [];
          sqls1 = fold (\<lambda>col sqls.
                    let columnSQL0 = ''`'' @ Name col @ ''` '' @ Type col;
                        columnSQL1 = (if \<not> Nullable col then columnSQL0 @ '' NOT NULL''
                                      else columnSQL0);
                        columnSQL2 = (case Default col of
                                        Some v \<Rightarrow> columnSQL1 @ '' DEFAULT '' @ fmt_v v
                                      | None \<Rightarrow> columnSQL1);
                        columnSQL3 = (if After col \<noteq> []
                                      then columnSQL2 @ '' AFTER `'' @ After col @ ''`''
                                      else columnSQL2);
                        sql = ''ALTER TABLE `'' @ tableName bp @ ''` ADD COLUMN '' @ columnSQL3
                    in sqls @ [sql]) (columns bp) sqls0;
          sqls2 = fold (\<lambda>index sqls.
                    let sql = ''ALTER TABLE `'' @ tableName bp @ ''` ADD '' @ index
                    in sqls @ [sql]) (indexes bp) sqls1
      in sqls2)"

section \<open>The PostgreSQL renderer (mysql.go, second part)\<close>

definition postgresqlBlueprint_Serial :: "'db blueprint \<Rightarrow> string \<Rightarrow> 'db blueprint \<times> columnBuilder" where
  "postgresqlBlueprint_Serial bp name = blueprint_AddColumn bp name ''SERIAL''"

definition postgresqlBlueprint_BigSerial :: "'db blueprint \<Rightarrow> string \<Rightarrow> 'db blueprint \<times> columnBuilder" where
  "postgresqlBlueprint_BigSerial bp name = blueprint_AddColumn bp name ''BIGSERIAL''"

definition postgresqlBlueprint_Array ::
  "'db blueprint \<Rightarrow> string \<Rightarrow> string \<Rightarrow> 'db blueprint \<times> columnBuilder" where
  "postgresqlBlueprint_Array bp name baseType = blueprint_AddColumn bp name (baseType @ ''[]'')"

definition postgresqlBlueprint_ID :: "'db blueprint \<Rightarrow> 'db blueprint \<times> columnBuilder" where
  "postgresqlBlueprint_ID bp = blueprint_AddColumn bp ''id'' ''BIGSERIAL PRIMARY KEY''"

definition postgresqlBlueprint_UUID :: "'db blueprint \<Rightarrow> string \<Rightarrow> 'db blueprint \<times> columnBuilder" where
  "postgresqlBlueprint_UUID bp name = blueprint_AddColumn bp name ''UUID''"

definition postgresqlBlueprint_Timestamps :: "'db blueprint \<Rightarrow> 'db blueprint" where
  "postgresqlBlueprint_Timestamps bp =
     (let b1 = fst (blueprint_AddColumn bp ''created_at'' ''TIMESTAMP DEFAULT CURRENT_TIMESTAMP'')
      in fst (blueprint_AddColumn b1 ''updated_at'' ''TIMESTAMP DEFAULT CURRENT_TIMESTAMP''))"

text \<open>The type switch of \<^verbatim>\<open>formatDefaultValue\<close>: a string, then \<^verbatim>\<open>int, int64, float64\<close>,
  then every other dynamic type.\<close>

fun postgresqlBlueprint_formatDefaultValue :: "go_value \<Rightarrow> string" where
  "postgresqlBlueprint_formatDefaultValue (GoString v) =
     (if v = ''{}'' then [CHR 0x27] @ ''{}'' @ [CHR 0x27]
      else if v = ''[]'' then [CHR 0x27] @ ''[]'' @ [CHR 0x27]
      else if v = ''{user}'' then [CHR 0x27] @ ''{user}'' @ [CHR 0x27]
      else if HasPrefix v ''{'' \<and> HasSuffix v ''}'' then [CHR 0x27] @ v @ [CHR 0x27]
      else [CHR 0x27] @ v @ [CHR 0x27])"
| "postgresqlBlueprint_formatDefaultValue (GoInt i) = fmt_v (GoInt i)"
| "postgresqlBlueprint_formatDefaultValue (GoInt64 i) = fmt_v (GoInt64 i)"
| "postgresqlBlueprint_formatDefaultValue (GoFloat64 x) = fmt_v (GoFloat64 x)"
| "postgresqlBlueprint_formatDefaultValue v = [CHR 0x27] @ fmt_v v @ [CHR 0x27]"

definition postgresqlBlueprint_toCreateTableSQL :: "'db blueprint \<Rightarrow> string" where
  \<open>postgresqlBlueprint_toCreateTableSQL bp =
     (let parts0 = [];
          parts1 = fold (\<lambda>col parts.
                     let columnSQL0 = ''"'' @ Name col @ ''" '' @ Type col;
                         columnSQL1 = (if \<not> Nullable col \<and> \<not> Contains (Type col) ''SERIAL''
                                       then columnSQL0 @ '' NOT NULL'' else columnSQL0);
                         columnSQL2 = (case Default col of
                                         Some v \<Rightarrow>
                                           (let defaultValue = postgresqlBlueprint_formatDefaultValue v
                                            in columnSQL1 @ '' DEFAULT '' @ defaultValue)
                                       | None \<Rightarrow> columnSQL1)
                     in parts @ [columnSQL2]) (columns bp) parts0
      in ''CREATE TABLE "'' @ tableName bp @ ''" (\<newline>  '' @ Join parts1 '',\<newline>  '' @ ''\<newline>)'')\<close>

definition postgresqlBlueprint_formatIndexSQL :: "'db blueprint \<Rightarrow> string \<Rightarrow> string" where
  \<open>postgresqlBlueprint_formatIndexSQL bp index =
     (let index' = ReplaceAll index ''`'' ''"''
      in if Contains index' ''INDEX'' \<and> \<not> Contains index' ''CREATE''
         then (let parts = Fields index'
               in if length parts \<ge> 3
                  then (let indexName = parts ! 1;
                            cols = Join (drop 2 parts) '' ''
                        in ''CREATE INDEX '' @ indexName @ '' ON "'' @ tableName bp @ ''" '' @ cols)
                  else index')
         else index')\<close>

definition postgresqlBlueprint_formatForeignKeySQL :: "'db blueprint \<Rightarrow> string \<Rightarrow> string" where
  \<open>postgresqlBlueprint_formatForeignKeySQL bp foreign =
     (let foreign' = ReplaceAll foreign ''`'' ''"''
      in if \<not> Contains foreign' ''ALTER TABLE''
         then ''ALTER TABLE "'' @ tableName bp @ ''" ADD '' @ foreign'
         else foreign')\<close>

definition postgresqlBlueprint_toIndexSQL :: "'db blueprint \<Rightarrow> string list" where
  "postgresqlBlueprint_toIndexSQL bp =
     fold (\<lambda>index sqls.
        let indexSQL = postgresqlBlueprint_formatIndexSQL bp index
        in sqls @ [indexSQL]) (indexes bp) []"

definition postgresqlBlueprint_toForeignKeySQL :: "'db blueprint \<Rightarrow> string list" where
  "postgresqlBlueprint_toForeignKeySQL bp =
     fold (\<lambda>foreign sqls.
        let foreignSQL = postgresqlBlueprint_formatForeignKeySQL bp foreign
        in sqls @ [foreignSQL]) (foreigns bp) []"

definition postgresqlBlueprint_toAlterSQL :: "'db blueprint \<Rightarrow> string list" where
  \<open>postgresqlBlueprint_toAlterSQL bp =
     (let sqls0 = [];
          sqls1 = fold (\<lambda>col sqls.
                    let columnSQL0 = ''"'' @ Name col @ ''" '' @ Type col;
                        columnSQL1 = (if \<not> Nullable col \<and> \<not> Contains (Type col) ''SERIAL''
                                      then columnSQL0 @ '' NOT NULL'' else columnSQL0);
                        columnSQL2 = (case Default col of
                                        Some v \<Rightarrow> columnSQL1 @ '' DEFAULT '' @ fmt_v v
                                      | None \<Rightarrow> columnSQL1);
                        sql = ''ALTER TABLE "'' @ tableName bp @ ''" ADD COLUMN '' @ columnSQL2
                    in sqls @ [sql]) (columns bp) sqls0;
          sqls2 = fold (\<lambda>index sqls.
                    let indexSQL = ReplaceAll index ''`'' ''"'';
                        sql = ''ALTER TABLE "'' @ tableName bp @ ''" ADD '' @ indexSQL
                    in sqls @ [sql]) (indexes bp) sqls1
      in sqls2)\<close>

section \<open>The schema operations\<close>

text \<open>
  The database handle is the external collaborator: \<open>Exec\<close> is its method
  \<^verbatim>\<open>db.Exec(sql)\<close>, which takes the database as it is and the statement, and returns the
  database as the statement leaves it with the error (\<open>None\<close> is \<^verbatim>\<open>nil\<close>). The caller's
  configuration callback receives the fresh blueprint and populates it. An operation
  returns the database and its error.
\<close>

type_synonym ('db, 'e) exec = "'db \<Rightarrow> string \<Rightarrow> 'db \<times> 'e option"

text \<open>The loop \<^verbatim>\<open>for _, sql := range sqls { if _, err := db.Exec(sql); err != nil { return err } }\<close>:
  the result \<open>None\<close> is the loop running to its end.\<close>

fun Exec_range :: "('db, 'e) exec \<Rightarrow> 'db \<Rightarrow> string list \<Rightarrow> 'db \<times> 'e option" where
  "Exec_range Exec d [] = (d, None)"
| "Exec_range Exec d (sql # sqls) =
     (case Exec d sql of
        (d', Some err) \<Rightarrow> (d', Some err)
      | (d', None) \<Rightarrow> Exec_range Exec d' sqls)"

definition mysqlProvider_Create ::
  "('db, 'e) exec \<Rightarrow> 'db \<Rightarrow> string \<Rightarrow> ('db blueprint \<Rightarrow> 'db blueprint) \<Rightarrow> 'db \<times> 'e option" where
  "mysqlProvider_Create Exec d name callback =
     (let bp = callback (newBlueprint name d);
          sql = mysqlBlueprint_toCreateSQL bp
      in Exec d sql)"

definition mysqlProvider_Table ::
  "('db, 'e) exec \<Rightarrow> 'db \<Rightarrow> string \<Rightarrow> ('db blueprint \<Rightarrow> 'db blueprint) \<Rightarrow> 'db \<times> 'e option" where
  "mysqlProvider_Table Exec d name callback =
     (let bp = callback (newBlueprint name d);
          sqls = mysqlBlueprint_toAlterSQL bp
      in Exec_range Exec d sqls)"

definition postgresqlProvider_Create ::
  "('db, 'e) exec \<Rightarrow> 'db \<Rightarrow> string \<Rightarrow> ('db blueprint \<Rightarrow> 'db blueprint) \<Rightarrow> 'db \<times> 'e option" where
  "postgresqlProvider_Create Exec d name callback =
     (let bp = callback (newBlueprint name d);
          createSQL = postgresqlBlueprint_toCreateTableSQL bp
      in case Exec d createSQL of
           (d1, Some err) \<Rightarrow> (d1, Some err)
         | (d1, None) \<Rightarrow>
             (case Exec_range Exec d1 (postgresqlBlueprint_toIndexSQL bp) of
                (d2, Some err) \<Rightarrow> (d2, Some err)
              | (d2, None) \<Rightarrow>
                  (case Exec_range Exec d2 (postgresqlBlueprint_toForeignKeySQL bp) of
                     (d3, Some err) \<Rightarrow> (d3, Some err)
                   | (d3, None) \<Rightarrow> (d3, None))))"

definition postgresqlProvider_Table ::
  "('db, 'e) exec \<Rightarrow> 'db \<Rightarrow> string \<Rightarrow> ('db blueprint \<Rightarrow> 'db blueprint) \<Rightarrow> 'db \<times> 'e option" where
  "postgresqlProvider_Table Exec d name callback =
     (let bp = callback (newBlueprint name d);
          sqls = postgresqlBlueprint_toAlterSQL bp
      in Exec_range Exec d sqls)"

section \<open>Notions the properties are stated with\<close>

subsection \<open>Column clauses, as the specification words them\<close>

text \<open>
  The clause of one column in each of the four renderings, written as the specification
  describes it: the quoted name, the type literal, then each optional part or nothing.
\<close>

definition mysql_create_clause :: "Column \<Rightarrow> string" where
  "mysql_create_clause col =
     ''`'' @ Name col @ ''` '' @ Type col
     @ (if Nullable col then [] else '' NOT NULL'')
     @ (case Default col of None \<Rightarrow> [] | Some v \<Rightarrow> '' DEFAULT '' @ fmt_v v)
     @ (if Comment col = [] then [] else '' COMMENT '' @ [CHR 0x27] @ Comment col @ [CHR 0x27])"

definition mysql_alter_clause :: "Column \<Rightarrow> string" where
  "mysql_alter_clause col =
     ''`'' @ Name col @ ''` '' @ Type col
     @ (if Nullable col then [] else '' NOT NULL'')
     @ (case Default col of None \<Rightarrow> [] | Some v \<Rightarrow> '' DEFAULT '' @ fmt_v v)
     @ (if After col = [] then [] else '' AFTER `'' @ After col @ ''`'')"

definition postgresql_not_null :: "Column \<Rightarrow> string" where
  "postgresql_not_null col =
     (if Contains (Type col) ''SERIAL'' then []
      else if Nullable col then [] else '' NOT NULL'')"

definition postgresql_create_clause :: "Column \<Rightarrow> string" where
  \<open>postgresql_create_clause col =
     ''"'' @ Name col @ ''" '' @ Type col
     @ postgresql_not_null col
     @ (case Default col of None \<Rightarrow> []
        | Some v \<Rightarrow> '' DEFAULT '' @ postgresqlBlueprint_formatDefaultValue v)\<close>

definition postgresql_alter_clause :: "Column \<Rightarrow> string" where
  \<open>postgresql_alter_clause col =
     ''"'' @ Name col @ ''" '' @ Type col
     @ postgresql_not_null col
     @ (case Default col of None \<Rightarrow> [] | Some v \<Rightarrow> '' DEFAULT '' @ fmt_v v)\<close>

subsection \<open>Sequences of foreign-key builder calls\<close>

datatype fk_call =
    Call_References string
  | Call_On string
  | Call_OnDelete string
  | Call_OnUpdate string

fun fk_step ::
  "foreignKeyBuilder \<times> 'db blueprint \<Rightarrow> fk_call \<Rightarrow> foreignKeyBuilder \<times> 'db blueprint" where
  "fk_step fb (Call_References col) = foreignKeyBuilder_References fb col"
| "fk_step fb (Call_On table) = foreignKeyBuilder_On fb table"
| "fk_step fb (Call_OnDelete action) = foreignKeyBuilder_OnDelete fb action"
| "fk_step fb (Call_OnUpdate action) = foreignKeyBuilder_OnUpdate fb action"

definition fk_run ::
  "foreignKeyBuilder \<times> 'db blueprint \<Rightarrow> fk_call list \<Rightarrow> foreignKeyBuilder \<times> 'db blueprint" where
  "fk_run fb calls = foldl fk_step fb calls"



text \<open>What every materialized fragment starts with, from the builder's fields.\<close>

definition fk_head :: "foreignKeyBuilder \<Rightarrow> string" where
  "fk_head f =
     ''FOREIGN KEY ('' @ localColumn f @ '') REFERENCES '' @ foreignTable f
     @ '' ('' @ foreignColumn f @ '')''"

subsection \<open>A handle that records its calls\<close>

text \<open>
  The handle \<open>recording Exec\<close> behaves as \<open>Exec\<close> and appends every statement it is passed,
  with the error \<open>Exec\<close> returned for it, to a log kept beside the database.
\<close>

definition recording :: "('db, 'e) exec \<Rightarrow> ('db \<times> (string \<times> 'e option) list, 'e) exec" where
  "recording Exec = (\<lambda>(d, log) sql.
     case Exec d sql of (d', r) \<Rightarrow> ((d', log @ [(sql, r)]), r))"

text \<open>
  The log and the result of an operation that emits \<open>sqls\<close> and stops at the first failure:
  either every statement was executed in order, each succeeded, and the result is \<^verbatim>\<open>nil\<close>;
  or for some position \<open>k\<close> the statements before \<open>k\<close> were executed in order and
  succeeded, statement \<open>k\<close> was executed and failed with the error returned, and nothing
  was executed after it.
\<close>

definition stops_at_first_failure ::
  "string list \<Rightarrow> (string \<times> 'e option) list \<Rightarrow> 'e option \<Rightarrow> bool" where
  "stops_at_first_failure sqls log r =
     ((r = None \<and> log = map (\<lambda>sql. (sql, None)) sqls) \<or>
      (\<exists>k<length sqls. \<exists>err. r = Some err \<and>
         log = map (\<lambda>sql. (sql, None)) (take k sqls) @ [(sqls ! k, Some err)]))"

subsection \<open>Columns that differ in the two flags only\<close>

definition same_but_flags :: "Column \<Rightarrow> Column \<Rightarrow> bool" where
  "same_but_flags c c' =
     (Name c = Name c' \<and> Type c = Type c' \<and> Length c = Length c' \<and>
      Nullable c = Nullable c' \<and> Default c = Default c' \<and>
      Comment c = Comment c' \<and> After c = After c')"

definition differ_in_flags_only :: "'db blueprint \<Rightarrow> 'db blueprint \<Rightarrow> bool" where
  "differ_in_flags_only bp bp' =
     (tableName bp = tableName bp' \<and> list_all2 same_but_flags (columns bp) (columns bp') \<and>
      indexes bp = indexes bp' \<and> foreigns bp = foreigns bp')"

section \<open>Library lemmas\<close>

lemma fold_snoc_map: "fold (\<lambda>x acc. acc @ [f x]) xs acc = acc @ map f xs"
  by (induction xs arbitrary: acc) simp_all

lemma ReplaceAll_single: "ReplaceAll s [a] [b] = map (\<lambda>c. if c = a then b else c) s"
  by (induction s) auto

section \<open>Foreign keys\<close>

lemma build_cases:
  "foreigns (foreignKeyBuilder_build f b) =
     (if foreignTable f = [] \<or> foreignColumn f = [] then foreigns b
      else foreigns b @ [fk_head f
             @ (if onDelete f = [] then [] else '' ON DELETE '' @ onDelete f)
             @ (if onUpdate f = [] then [] else '' ON UPDATE '' @ onUpdate f)])"
  by (simp add: foreignKeyBuilder_build_def fk_head_def Let_def)

lemmas fk_method_defs =
  foreignKeyBuilder_References_def foreignKeyBuilder_On_def
  foreignKeyBuilder_OnDelete_def foreignKeyBuilder_OnUpdate_def

text \<open>
  Claim C1, as stated: after \<^verbatim>\<open>Foreign("user_id").References("id").On("users").OnDelete("CASCADE")\<close>
  on a fresh blueprint the foreign-key list holds exactly one fragment,
  \<^verbatim>\<open>FOREIGN KEY (user_id) REFERENCES users (id) ON DELETE CASCADE\<close>. It does not: \<^verbatim>\<open>On\<close>
  calls \<^verbatim>\<open>build\<close> too, and at that call both the table and the column are known, so the
  list already holds a fragment when \<^verbatim>\<open>OnDelete\<close> appends the second.
\<close>

theorem foreign_key_chain_not_one_fragment:
  "foreigns (snd (foreignKeyBuilder_OnDelete
      (foreignKeyBuilder_On
        (foreignKeyBuilder_References
          (blueprint_Foreign (newBlueprint ''posts'' ()) ''user_id'', newBlueprint ''posts'' ())
          ''id'')
        ''users'')
      ''CASCADE''))
     \<noteq> [''FOREIGN KEY (user_id) REFERENCES users (id) ON DELETE CASCADE'']
   \<and> length (foreigns (snd (foreignKeyBuilder_OnDelete
      (foreignKeyBuilder_On
        (foreignKeyBuilder_References
          (blueprint_Foreign (newBlueprint ''posts'' ()) ''user_id'', newBlueprint ''posts'' ())
          ''id'')
        ''users'')
      ''CASCADE''))) = 2"
  by (simp add: fk_method_defs blueprint_Foreign_def newBlueprint_def build_cases fk_head_def
      Let_def)

text \<open>
  Claim C1, amended: after that call sequence on a fresh blueprint (of any table name)
  the foreign-key list holds exactly two fragments, the one \<^verbatim>\<open>On\<close> appended,
  \<^verbatim>\<open>FOREIGN KEY (user_id) REFERENCES users (id)\<close>, and then the one \<^verbatim>\<open>OnDelete\<close> appended,
  \<^verbatim>\<open>FOREIGN KEY (user_id) REFERENCES users (id) ON DELETE CASCADE\<close>; a subsequent call
  \<^verbatim>\<open>OnUpdate(a)\<close> appends exactly one more, separate fragment, which brings the count to
  three.
\<close>

theorem foreign_key_chain_fragments:
  "foreigns (snd (foreignKeyBuilder_OnDelete
      (foreignKeyBuilder_On
        (foreignKeyBuilder_References
          (blueprint_Foreign (newBlueprint name d) ''user_id'', newBlueprint name d) ''id'')
        ''users'')
      ''CASCADE''))
     = [''FOREIGN KEY (user_id) REFERENCES users (id)'',
        ''FOREIGN KEY (user_id) REFERENCES users (id) ON DELETE CASCADE'']
   \<and> foreigns (snd (foreignKeyBuilder_OnUpdate
      (foreignKeyBuilder_OnDelete
        (foreignKeyBuilder_On
          (foreignKeyBuilder_References
            (blueprint_Foreign (newBlueprint name d) ''user_id'', newBlueprint name d) ''id'')
          ''users'')
        ''CASCADE'')
      a))
     = [''FOREIGN KEY (user_id) REFERENCES users (id)'',
        ''FOREIGN KEY (user_id) REFERENCES users (id) ON DELETE CASCADE'',
        ''FOREIGN KEY (user_id) REFERENCES users (id) ON DELETE CASCADE''
          @ (if a = [] then [] else '' ON UPDATE '' @ a)]"
  by (simp add: fk_method_defs blueprint_Foreign_def newBlueprint_def build_cases fk_head_def
      Let_def)

subsection \<open>Every sequence of builder calls\<close>










section \<open>Index registration\<close>

text \<open>
  Claim C8: for every non-empty list of column names \<open>cols\<close>, \<^verbatim>\<open>Index(cols...)\<close> appends
  exactly one fragment, whose index name is the names joined with \<^verbatim>\<open>_\<close> followed by
  \<^verbatim>\<open>_index\<close>; \<^verbatim>\<open>UniqueIndex\<close> one with the suffix \<^verbatim>\<open>_unique\<close>; \<^verbatim>\<open>FullTextIndex\<close> one with the
  suffix \<^verbatim>\<open>_fulltext\<close>; \<^verbatim>\<open>Primary\<close> one \<^verbatim>\<open>PRIMARY KEY\<close> fragment without a name. Each call
  changes nothing else of the blueprint. In particular \<^verbatim>\<open>Index("a","b")\<close> gives the name
  \<^verbatim>\<open>a_b_index\<close> and \<^verbatim>\<open>UniqueIndex("a")\<close> gives \<^verbatim>\<open>a_unique\<close>.
\<close>

theorem index_registration:
  assumes "cols \<noteq> []"
  shows
  "blueprint_Index b cols =
     b\<lparr>indexes := indexes b @ [''INDEX '' @ (Join cols ''_'' @ ''_index'') @ '' ('' @ Join cols '', '' @ '')'']\<rparr>
   \<and> blueprint_UniqueIndex b cols =
     b\<lparr>indexes := indexes b @ [''UNIQUE INDEX '' @ (Join cols ''_'' @ ''_unique'') @ '' ('' @ Join cols '', '' @ '')'']\<rparr>
   \<and> blueprint_FullTextIndex b cols =
     b\<lparr>indexes := indexes b @ [''FULLTEXT INDEX '' @ (Join cols ''_'' @ ''_fulltext'') @ '' ('' @ Join cols '', '' @ '')'']\<rparr>
   \<and> blueprint_Primary b cols =
     b\<lparr>indexes := indexes b @ [''PRIMARY KEY ('' @ Join cols '', '' @ '')'']\<rparr>
   \<and> indexes (blueprint_Index b [''a'', ''b'']) = indexes b @ [''INDEX a_b_index (a, b)'']
   \<and> indexes (blueprint_UniqueIndex b [''a'']) = indexes b @ [''UNIQUE INDEX a_unique (a)'']"
  by (simp add: blueprint_Index_def blueprint_UniqueIndex_def blueprint_FullTextIndex_def
      blueprint_Primary_def Let_def)

theorem index_registration_witness:
  "[''email'', ''tenant''] \<noteq> []
   \<and> indexes (blueprint_Index (newBlueprint ''users'' ()) [''email'', ''tenant''])
       = [''INDEX email_tenant_index (email, tenant)'']
   \<and> indexes (blueprint_UniqueIndex (newBlueprint ''users'' ()) [''email'', ''tenant''])
       = [''UNIQUE INDEX email_tenant_unique (email, tenant)'']
   \<and> indexes (blueprint_FullTextIndex (newBlueprint ''users'' ()) [''email'', ''tenant''])
       = [''FULLTEXT INDEX email_tenant_fulltext (email, tenant)'']
   \<and> indexes (blueprint_Primary (newBlueprint ''users'' ()) [''email'', ''tenant''])
       = [''PRIMARY KEY (email, tenant)'']"
  using index_registration [of "[''email'', ''tenant'']" "newBlueprint ''users'' ()"]
  by (simp add: newBlueprint_def)

section \<open>The renderers' loops as maps\<close>

lemma mysql_alter_map:
  "mysqlBlueprint_toAlterSQL bp =
     map (\<lambda>col. ''ALTER TABLE `'' @ tableName bp @ ''` ADD COLUMN '' @ mysql_alter_clause col) (columns bp)
     @ map (\<lambda>index. ''ALTER TABLE `'' @ tableName bp @ ''` ADD '' @ index) (indexes bp)"
proof -
  have body: "(\<lambda>col sqls.
       let columnSQL0 = ''`'' @ Name col @ ''` '' @ Type col;
           columnSQL1 = (if \<not> Nullable col then columnSQL0 @ '' NOT NULL'' else columnSQL0);
           columnSQL2 = (case Default col of
                           Some v \<Rightarrow> columnSQL1 @ '' DEFAULT '' @ fmt_v v
                         | None \<Rightarrow> columnSQL1);
           columnSQL3 = (if After col \<noteq> []
                         then columnSQL2 @ '' AFTER `'' @ After col @ ''`'' else columnSQL2);
           sql = ''ALTER TABLE `'' @ tableName bp @ ''` ADD COLUMN '' @ columnSQL3
       in sqls @ [sql])
     = (\<lambda>col sqls. sqls @ [''ALTER TABLE `'' @ tableName bp @ ''` ADD COLUMN '' @ mysql_alter_clause col])"
    by (intro ext) (simp add: Let_def mysql_alter_clause_def split: option.split)
  show ?thesis
    unfolding mysqlBlueprint_toAlterSQL_def body
    by (simp add: Let_def fold_snoc_map)
qed

lemma mysql_create_map:
  "mysqlBlueprint_toCreateSQL bp =
     ''CREATE TABLE `'' @ tableName bp @ ''` (\<newline>  ''
     @ Join (map mysql_create_clause (columns bp) @ indexes bp @ foreigns bp) '',\<newline>  ''
     @ ''\<newline>) ENGINE=InnoDB DEFAULT CHARSET=utf8mb4 COLLATE=utf8mb4_unicode_ci''"
proof -
  have body: "(\<lambda>col parts.
       let columnSQL0 = ''`'' @ Name col @ ''` '' @ Type col;
           columnSQL1 = (if \<not> Nullable col then columnSQL0 @ '' NOT NULL'' else columnSQL0);
           columnSQL2 = (case Default col of
                           Some v \<Rightarrow> columnSQL1 @ '' DEFAULT '' @ fmt_v v
                         | None \<Rightarrow> columnSQL1);
           columnSQL3 = (if Comment col \<noteq> []
                         then columnSQL2 @ '' COMMENT '' @ [CHR 0x27] @ Comment col @ [CHR 0x27]
                         else columnSQL2)
       in parts @ [columnSQL3])
     = (\<lambda>col parts. parts @ [mysql_create_clause col])"
    by (intro ext) (simp add: Let_def mysql_create_clause_def split: option.split)
  have id: "fold (\<lambda>x parts. parts @ [x]) xs acc = acc @ xs" for xs acc :: "string list"
    using fold_snoc_map[of "\<lambda>x. x" xs acc] by simp
  show ?thesis
    unfolding mysqlBlueprint_toCreateSQL_def body
    by (simp add: Let_def fold_snoc_map id)
qed

lemma postgresql_create_map:
  \<open>postgresqlBlueprint_toCreateTableSQL bp =
     ''CREATE TABLE "'' @ tableName bp @ ''" (\<newline>  ''
     @ Join (map postgresql_create_clause (columns bp)) '',\<newline>  '' @ ''\<newline>)''\<close>
proof -
  have body: \<open>(\<lambda>col parts.
       let columnSQL0 = ''"'' @ Name col @ ''" '' @ Type col;
           columnSQL1 = (if \<not> Nullable col \<and> \<not> Contains (Type col) ''SERIAL''
                         then columnSQL0 @ '' NOT NULL'' else columnSQL0);
           columnSQL2 = (case Default col of
                           Some v \<Rightarrow>
                             (let defaultValue = postgresqlBlueprint_formatDefaultValue v
                              in columnSQL1 @ '' DEFAULT '' @ defaultValue)
                         | None \<Rightarrow> columnSQL1)
       in parts @ [columnSQL2])
     = (\<lambda>col parts. parts @ [postgresql_create_clause col])\<close>
    by (intro ext)
       (simp add: Let_def postgresql_create_clause_def postgresql_not_null_def split: option.split)
  show ?thesis
    unfolding postgresqlBlueprint_toCreateTableSQL_def body
    by (simp add: Let_def fold_snoc_map)
qed

lemma postgresql_alter_map:
  \<open>postgresqlBlueprint_toAlterSQL bp =
     map (\<lambda>col. ''ALTER TABLE "'' @ tableName bp @ ''" ADD COLUMN '' @ postgresql_alter_clause col)
       (columns bp)
     @ map (\<lambda>index. ''ALTER TABLE "'' @ tableName bp @ ''" ADD '' @ ReplaceAll index ''`'' ''"'')
       (indexes bp)\<close>
proof -
  have body: \<open>(\<lambda>col sqls.
       let columnSQL0 = ''"'' @ Name col @ ''" '' @ Type col;
           columnSQL1 = (if \<not> Nullable col \<and> \<not> Contains (Type col) ''SERIAL''
                         then columnSQL0 @ '' NOT NULL'' else columnSQL0);
           columnSQL2 = (case Default col of
                           Some v \<Rightarrow> columnSQL1 @ '' DEFAULT '' @ fmt_v v
                         | None \<Rightarrow> columnSQL1);
           sql = ''ALTER TABLE "'' @ tableName bp @ ''" ADD COLUMN '' @ columnSQL2
       in sqls @ [sql])
     = (\<lambda>col sqls. sqls @ [''ALTER TABLE "'' @ tableName bp @ ''" ADD COLUMN ''
                              @ postgresql_alter_clause col])\<close>
    by (intro ext)
       (simp add: Let_def postgresql_alter_clause_def postgresql_not_null_def split: option.split)
  show ?thesis
    unfolding postgresqlBlueprint_toAlterSQL_def body
    by (simp add: Let_def fold_snoc_map)
qed

lemma postgresql_index_map:
  "postgresqlBlueprint_toIndexSQL bp = map (postgresqlBlueprint_formatIndexSQL bp) (indexes bp)"
  by (simp add: postgresqlBlueprint_toIndexSQL_def Let_def fold_snoc_map)

lemma postgresql_foreign_map:
  "postgresqlBlueprint_toForeignKeySQL bp
     = map (postgresqlBlueprint_formatForeignKeySQL bp) (foreigns bp)"
  by (simp add: postgresqlBlueprint_toForeignKeySQL_def Let_def fold_snoc_map)

lemma fk_step_rest:
  "tableName (snd (fk_step fb call)) = tableName (snd fb)"
  "columns (snd (fk_step fb call)) = columns (snd fb)"
  "indexes (snd (fk_step fb call)) = indexes (snd fb)"
  by (cases call; simp add: fk_method_defs Let_def foreignKeyBuilder_build_def)+

lemma fk_run_rest:
  "tableName (snd (fk_run fb calls)) = tableName (snd fb) \<and>
   columns (snd (fk_run fb calls)) = columns (snd fb) \<and>
   indexes (snd (fk_run fb calls)) = indexes (snd fb)"
  by (induction calls rule: rev_induct) (simp_all add: fk_run_def fk_step_rest)

text \<open>
  Claim C3: for every blueprint, whatever foreign keys the callback registered, the
  statement list of the alter path of either dialect holds one \<^verbatim>\<open>ADD COLUMN\<close> statement
  per declared column, in declaration order, then one \<^verbatim>\<open>ADD <index-fragment>\<close> statement
  per index, in registration order (PostgreSQL writes the fragment with its backticks
  replaced by double quotes), and nothing else: the list does not depend on the
  foreign-key list, and no sequence of foreign-key builder calls changes it.
\<close>

theorem alter_path_statements:
  \<open>mysqlBlueprint_toAlterSQL bp =
     map (\<lambda>col. ''ALTER TABLE `'' @ tableName bp @ ''` ADD COLUMN '' @ mysql_alter_clause col)
       (columns bp)
     @ map (\<lambda>index. ''ALTER TABLE `'' @ tableName bp @ ''` ADD '' @ index) (indexes bp)
   \<and> postgresqlBlueprint_toAlterSQL bp =
     map (\<lambda>col. ''ALTER TABLE "'' @ tableName bp @ ''" ADD COLUMN '' @ postgresql_alter_clause col)
       (columns bp)
     @ map (\<lambda>index. ''ALTER TABLE "'' @ tableName bp @ ''" ADD '' @ ReplaceAll index ''`'' ''"'')
       (indexes bp)
   \<and> mysqlBlueprint_toAlterSQL (bp\<lparr>foreigns := fks\<rparr>) = mysqlBlueprint_toAlterSQL bp
   \<and> postgresqlBlueprint_toAlterSQL (bp\<lparr>foreigns := fks\<rparr>) = postgresqlBlueprint_toAlterSQL bp
   \<and> mysqlBlueprint_toAlterSQL (snd (fk_run (f, bp) calls)) = mysqlBlueprint_toAlterSQL bp
   \<and> postgresqlBlueprint_toAlterSQL (snd (fk_run (f, bp) calls)) = postgresqlBlueprint_toAlterSQL bp\<close>
  using fk_run_rest[of "(f, bp)" calls]
  by (simp add: mysql_alter_map postgresql_alter_map)

section \<open>The MySQL create path\<close>

lemma fmt_d_examples: "fmt_d 255 = ''255''" "fmt_d 0 = ''0''"
  by (simp_all add: fmt_d_def fmt_nat.simps)

lemma recording_once:
  "recording Exec (d, log) sql = ((fst (Exec d sql), log @ [(sql, snd (Exec d sql))]), snd (Exec d sql))"
  by (simp add: recording_def split: prod.split)

text \<open>
  Claim C4: for every blueprint the MySQL create path emits exactly one statement,
  \<^verbatim>\<open>CREATE TABLE `<table>` (<clauses>) ENGINE=InnoDB DEFAULT CHARSET=utf8mb4 COLLATE=utf8mb4_unicode_ci\<close>,
  whose clauses are one clause per column in declaration order, then every index
  fragment verbatim, then every foreign-key fragment verbatim, joined with a comma and a
  newline (followed by two spaces of indentation). A column clause is the
  backtick-quoted name, the type literal, \<^verbatim>\<open> NOT NULL\<close> iff the column is not nullable,
  \<^verbatim>\<open> DEFAULT <value>\<close> iff a default is set, the value as \<^verbatim>\<open>%v\<close> prints it (a string
  unquoted and unescaped), and \<^verbatim>\<open> COMMENT '<text>'\<close> iff the comment is not empty.
  \<^verbatim>\<open>Create\<close> passes the handle that one statement and returns its error. The last
  conjunct is the specification's example, \<^verbatim>\<open>String("name", 255)\<close> and
  \<^verbatim>\<open>Integer("age").Nullable().Default(0)\<close>.
\<close>

theorem mysql_create_statement:
  "mysqlBlueprint_toCreateSQL bp =
     ''CREATE TABLE `'' @ tableName bp @ ''` (\<newline>  ''
     @ Join (map mysql_create_clause (columns bp) @ indexes bp @ foreigns bp) '',\<newline>  ''
     @ ''\<newline>) ENGINE=InnoDB DEFAULT CHARSET=utf8mb4 COLLATE=utf8mb4_unicode_ci''
   \<and> mysql_create_clause col =
     ''`'' @ Name col @ ''` '' @ Type col
     @ (if Nullable col then [] else '' NOT NULL'')
     @ (case Default col of None \<Rightarrow> [] | Some v \<Rightarrow> '' DEFAULT '' @ fmt_v v)
     @ (if Comment col = [] then [] else '' COMMENT '' @ [CHR 0x27] @ Comment col @ [CHR 0x27])
   \<and> fmt_v (GoString s) = s
   \<and> mysqlProvider_Create (recording Exec) (d, []) name callback =
       (let sql = mysqlBlueprint_toCreateSQL (callback (newBlueprint name (d, [])))
        in ((fst (Exec d sql), [(sql, snd (Exec d sql))]), snd (Exec d sql)))
   \<and> (let (b1, name_col) = blueprint_String (newBlueprint ''users'' h) ''name'' 255;
           (b2, age_col) = blueprint_Integer b1 ''age'';
           b3 = columnBuilder_Default age_col (Some (GoInt 0)) (columnBuilder_Nullable age_col b2)
       in mysqlBlueprint_toCreateSQL b3)
      = ''CREATE TABLE `users` (\<newline>  `name` VARCHAR(255) NOT NULL,\<newline>  `age` INT DEFAULT 0\<newline>) ENGINE=InnoDB DEFAULT CHARSET=utf8mb4 COLLATE=utf8mb4_unicode_ci''"
proof -
  have ex: "(let (b1, name_col) = blueprint_String (newBlueprint ''users'' h) ''name'' 255;
           (b2, age_col) = blueprint_Integer b1 ''age'';
           b3 = columnBuilder_Default age_col (Some (GoInt 0)) (columnBuilder_Nullable age_col b2)
       in mysqlBlueprint_toCreateSQL b3)
      = ''CREATE TABLE `users` (\<newline>  `name` VARCHAR(255) NOT NULL,\<newline>  `age` INT DEFAULT 0\<newline>) ENGINE=InnoDB DEFAULT CHARSET=utf8mb4 COLLATE=utf8mb4_unicode_ci''"
    by (simp add: mysql_create_map blueprint_String_def blueprint_Integer_def
        blueprint_AddColumn_def newBlueprint_def columnBuilder_Default_def
        columnBuilder_Nullable_def set_column_def Let_def mysql_create_clause_def fmt_d_examples)
  have one: "mysqlProvider_Create (recording Exec) (d, []) name callback =
       (let sql = mysqlBlueprint_toCreateSQL (callback (newBlueprint name (d, [])))
        in ((fst (Exec d sql), [(sql, snd (Exec d sql))]), snd (Exec d sql)))"
    by (simp add: mysqlProvider_Create_def Let_def recording_once)
  show ?thesis
    using mysql_create_map[of bp] ex one by (simp add: mysql_create_clause_def)
qed

theorem mysql_create_statement_witness:
  "mysqlBlueprint_toCreateSQL
     \<lparr>tableName = ''posts'',
      columns = [\<lparr>Name = ''title'', Type = ''TEXT'', Length = None, Nullable = False,
                  Default = Some (GoString ''untitled''), Primary = False, Unique = False,
                  Comment = ''shown'', After = []\<rparr>,
                 \<lparr>Name = ''user_id'', Type = ''BIGINT'', Length = None, Nullable = True,
                  Default = None, Primary = False, Unique = False, Comment = [], After = []\<rparr>],
      indexes = [''INDEX title_index (title)''],
      foreigns = [''FOREIGN KEY (user_id) REFERENCES users (id)''],
      db = ()\<rparr>
   = ''CREATE TABLE `posts` (\<newline>  `title` TEXT NOT NULL DEFAULT untitled COMMENT 'shown',\<newline>  `user_id` BIGINT,\<newline>  INDEX title_index (title),\<newline>  FOREIGN KEY (user_id) REFERENCES users (id)\<newline>) ENGINE=InnoDB DEFAULT CHARSET=utf8mb4 COLLATE=utf8mb4_unicode_ci''"
  using mysql_create_statement
    [where bp = "\<lparr>tableName = ''posts'',
      columns = [\<lparr>Name = ''title'', Type = ''TEXT'', Length = None, Nullable = False,
                  Default = Some (GoString ''untitled''), Primary = False, Unique = False,
                  Comment = ''shown'', After = []\<rparr>,
                 \<lparr>Name = ''user_id'', Type = ''BIGINT'', Length = None, Nullable = True,
                  Default = None, Primary = False, Unique = False, Comment = [], After = []\<rparr>],
      indexes = [''INDEX title_index (title)''],
      foreigns = [''FOREIGN KEY (user_id) REFERENCES users (id)''],
      db = ()\<rparr>", THEN conjunct1]
  by (simp add: mysql_create_clause_def)

section \<open>The PostgreSQL create path: NOT NULL\<close>

lemma Serial_columns:
  "columns (fst (postgresqlBlueprint_Serial bp name)) =
     columns bp @ [\<lparr>Name = name, Type = ''SERIAL'', Length = None, Nullable = False,
                    Default = None, Primary = False, Unique = False, Comment = [], After = []\<rparr>]"
  "column (snd (postgresqlBlueprint_Serial bp name)) = length (columns bp)"
  "tableName (fst (postgresqlBlueprint_Serial bp name)) = tableName bp"
  by (simp_all add: postgresqlBlueprint_Serial_def blueprint_AddColumn_def Let_def)

text \<open>
  Claim C5: in the PostgreSQL \<^verbatim>\<open>CREATE TABLE\<close> rendering, whose clauses are
  \<open>postgresql_create_clause\<close> of the columns, a column whose type literal contains
  \<^verbatim>\<open>SERIAL\<close> never receives a \<^verbatim>\<open>NOT NULL\<close> clause, whatever its nullability flag; a
  column whose type does not contain \<^verbatim>\<open>SERIAL\<close> receives it exactly when its flag is
  false. The column that \<^verbatim>\<open>Serial(name)\<close> appends renders as \<^verbatim>\<open>"<name>" SERIAL\<close>, and
  neither \<^verbatim>\<open>Nullable()\<close> nor \<^verbatim>\<open>NotNullable()\<close> on it changes the statement.
\<close>

theorem postgresql_create_not_null:
  \<open>postgresqlBlueprint_toCreateTableSQL bp =
     ''CREATE TABLE "'' @ tableName bp @ ''" (\<newline>  ''
     @ Join (map postgresql_create_clause (columns bp)) '',\<newline>  '' @ ''\<newline>)''
   \<and> postgresql_create_clause col =
     ''"'' @ Name col @ ''" '' @ Type col
     @ postgresql_not_null col
     @ (case Default col of None \<Rightarrow> []
        | Some v \<Rightarrow> '' DEFAULT '' @ postgresqlBlueprint_formatDefaultValue v)
   \<and> (Contains (Type col) ''SERIAL'' \<longrightarrow> postgresql_not_null (col\<lparr>Nullable := n\<rparr>) = [])
   \<and> (\<not> Contains (Type col) ''SERIAL'' \<longrightarrow>
        postgresql_not_null col = (if Nullable col then [] else '' NOT NULL''))
   \<and> (case postgresqlBlueprint_Serial bp name of (bp', c) \<Rightarrow>
        postgresql_create_clause (last (columns bp')) = ''"'' @ name @ ''" SERIAL''
        \<and> postgresqlBlueprint_toCreateTableSQL (columnBuilder_Nullable c bp')
            = postgresqlBlueprint_toCreateTableSQL bp'
        \<and> postgresqlBlueprint_toCreateTableSQL (columnBuilder_NotNullable c bp')
            = postgresqlBlueprint_toCreateTableSQL bp')\<close>
proof -
  let ?s = "postgresqlBlueprint_Serial bp name"
  let ?col = "\<lparr>Name = name, Type = ''SERIAL'', Length = None, Nullable = False,
                Default = None, Primary = False, Unique = False, Comment = [], After = []\<rparr>"
  have flag: "postgresql_create_clause \<lparr>Name = name, Type = ''SERIAL'', Length = None,
                Nullable = True, Default = None, Primary = False, Unique = False, Comment = [],
                After = []\<rparr>
              = postgresql_create_clause ?col"
    by (simp add: postgresql_create_clause_def postgresql_not_null_def)
  have 1: \<open>postgresql_create_clause (last (columns (fst ?s))) = ''"'' @ name @ ''" SERIAL''\<close>
    by (simp add: Serial_columns postgresql_create_clause_def postgresql_not_null_def)
  have upd: "postgresqlBlueprint_toCreateTableSQL
        (set_column (snd ?s) (\<lambda>col. col\<lparr>Nullable := n\<rparr>) (fst ?s))
      = postgresqlBlueprint_toCreateTableSQL (fst ?s)" for n
    by (cases n) (simp_all add: postgresql_create_map set_column_def Serial_columns flag)
  have 5: \<open>case ?s of (bp', c) \<Rightarrow>
        postgresql_create_clause (last (columns bp')) = ''"'' @ name @ ''" SERIAL''
        \<and> postgresqlBlueprint_toCreateTableSQL (columnBuilder_Nullable c bp')
            = postgresqlBlueprint_toCreateTableSQL bp'
        \<and> postgresqlBlueprint_toCreateTableSQL (columnBuilder_NotNullable c bp')
            = postgresqlBlueprint_toCreateTableSQL bp'\<close>
    using 1 upd
    by (simp add: columnBuilder_Nullable_def columnBuilder_NotNullable_def case_prod_unfold)
  have 3: "Contains (Type col) ''SERIAL'' \<longrightarrow> postgresql_not_null (col\<lparr>Nullable := n\<rparr>) = []"
    by (simp add: postgresql_not_null_def)
  have 4: "\<not> Contains (Type col) ''SERIAL'' \<longrightarrow>
        postgresql_not_null col = (if Nullable col then [] else '' NOT NULL'')"
    by (simp add: postgresql_not_null_def)
  show ?thesis
    by (rule conjI[OF postgresql_create_map conjI[OF postgresql_create_clause_def
          conjI[OF 3 conjI[OF 4 5]]]])
qed

theorem postgresql_create_not_null_witness:
  \<open>Contains (Type \<lparr>Name = ''id'', Type = ''BIGSERIAL PRIMARY KEY'', Length = None, Nullable = False,
        Default = None, Primary = False, Unique = False, Comment = [], After = []\<rparr>) ''SERIAL''
   \<and> postgresql_not_null \<lparr>Name = ''id'', Type = ''BIGSERIAL PRIMARY KEY'', Length = None,
        Nullable = False, Default = None, Primary = False, Unique = False, Comment = [],
        After = []\<rparr> = []
   \<and> \<not> Contains (Type \<lparr>Name = ''email'', Type = ''VARCHAR(64)'', Length = None, Nullable = False,
        Default = None, Primary = False, Unique = False, Comment = [], After = []\<rparr>) ''SERIAL''
   \<and> postgresql_not_null \<lparr>Name = ''email'', Type = ''VARCHAR(64)'', Length = None,
        Nullable = False, Default = None, Primary = False, Unique = False, Comment = [],
        After = []\<rparr> = '' NOT NULL''
   \<and> postgresqlBlueprint_toCreateTableSQL
        (columnBuilder_NotNullable (snd (postgresqlBlueprint_Serial (newBlueprint ''users'' ()) ''id''))
           (fst (postgresqlBlueprint_Serial (newBlueprint ''users'' ()) ''id'')))
       = ''CREATE TABLE "users" (\<newline>  "id" SERIAL\<newline>)''\<close>
proof -
  let ?id = "\<lparr>Name = ''id'', Type = ''BIGSERIAL PRIMARY KEY'', Length = None, Nullable = False,
        Default = None, Primary = False, Unique = False, Comment = [], After = []\<rparr>"
  let ?email = "\<lparr>Name = ''email'', Type = ''VARCHAR(64)'', Length = None, Nullable = False,
        Default = None, Primary = False, Unique = False, Comment = [], After = []\<rparr>"
  let ?s = "postgresqlBlueprint_Serial (newBlueprint ''users'' ()) ''id''"
  note id = postgresql_create_not_null
    [where col = ?id and n = False and bp = "newBlueprint ''users'' ()" and name = "''id''"]
  note email = postgresql_create_not_null
    [where col = ?email and n = False and bp = "fst ?s" and name = "''id''"]
  have a: "Contains (Type ?id) ''SERIAL''" by simp
  have b: "\<not> Contains (Type ?email) ''SERIAL''" by simp
  from id a have c: "postgresql_not_null ?id = []" by simp
  from email b have d: "postgresql_not_null ?email = '' NOT NULL''" by simp
  from id have "postgresqlBlueprint_toCreateTableSQL (columnBuilder_NotNullable (snd ?s) (fst ?s))
      = postgresqlBlueprint_toCreateTableSQL (fst ?s)"
    by (simp add: case_prod_unfold)
  also from email have \<open>\<dots> = ''CREATE TABLE "'' @ tableName (fst ?s) @ ''" (\<newline>  ''
     @ Join (map postgresql_create_clause (columns (fst ?s))) '',\<newline>  '' @ ''\<newline>)''\<close>
    by blast
  also have \<open>\<dots> = ''CREATE TABLE "users" (\<newline>  "id" SERIAL\<newline>)''\<close>
    by (simp add: Serial_columns newBlueprint_def postgresql_create_clause_def
        postgresql_not_null_def)
  finally show ?thesis using a b c d by blast
qed

end
